theory Spec2Isabelle
  imports Complex_Main "HOL-Library.Signed_Division" "HOL-Library.Monad_Syntax"
begin

section \<open>vmmig\_bench: a Prometheus exporter for OpenShift Virtualization\<close>

text \<open>
  The exporter (package \<^verbatim>\<open>cmd\<close>, command \<^verbatim>\<open>start\<close>) polls two REST collections of a
  cluster API and republishes what it reads as four Prometheus metric vectors. This theory
  embeds the command and its three collection routines as functions on an explicit program
  state; everything the routines obtain from outside the repository (the Go standard
  library's HTTP client, JSON decoder and time parser, the Prometheus registry) is a field
  of an environment record, so a theorem holds for whatever those collaborators answer.
\<close>

subsection \<open>Errors, times and durations\<close>

text \<open>
  A Go \<^verbatim>\<open>error\<close> is either built by the program with \<^verbatim>\<open>fmt.Errorf\<close> (format and
  integer arguments) or handed back by a library call (its message).
\<close>

datatype error = Errorf string "int list" | LibError string

text \<open>
  A \<^verbatim>\<open>time.Time\<close> returned by \<^verbatim>\<open>time.Parse\<close> carries no monotonic reading: it is an
  instant with nanosecond resolution and the zone offset it was written with. \<open>instant\<close>
  counts nanoseconds since 0001-01-01T00:00:00Z, \<open>offset\<close> is in seconds east of UTC.
\<close>

record time =
  instant :: int
  offset :: int

text \<open>\<^verbatim>\<open>time.Duration\<close> is an \<^verbatim>\<open>int64\<close> count of nanoseconds.\<close>

definition minDuration :: int where
  "minDuration = - (2 ^ 63)"

definition maxDuration :: int where
  "maxDuration = 2 ^ 63 - 1"

definition Second :: int where
  "Second = 1000000000"


text \<open>
  \<^verbatim>\<open>t.Sub(u)\<close>: the duration \<open>t - u\<close>; when it does not fit a \<^verbatim>\<open>Duration\<close>, the
  largest or the smallest \<^verbatim>\<open>Duration\<close> is returned instead.
\<close>

definition Sub :: "time \<Rightarrow> time \<Rightarrow> int" where
  "Sub t u =
     (let d = instant t - instant u
      in if maxDuration < d then maxDuration
         else if d < minDuration then minDuration
         else d)"

text \<open>
  \<^verbatim>\<open>d.Seconds()\<close> is \<^verbatim>\<open>float64(d / Second) + float64(d % Second) / 1e9\<close>, Go's \<^verbatim>\<open>/\<close>
  and \<^verbatim>\<open>%\<close> truncating towards zero. The \<^verbatim>\<open>float64\<close> operations are taken as exact
  real arithmetic; they are exact in Go as well whenever \<open>d\<close> is a whole number of seconds.
\<close>

definition Seconds :: "int \<Rightarrow> real" where
  "Seconds d = real_of_int (d sdiv Second) + real_of_int (d smod Second) / 1000000000"

subsection \<open>Printed output\<close>

text \<open>
  Standard output is kept as the list of print calls, oldest first: the format string and
  the arguments of each \<^verbatim>\<open>fmt.Printf\<close>, the text of each \<^verbatim>\<open>fmt.Println\<close>, and \<open>Usage\<close>
  for the usage text \<^verbatim>\<open>cmd.Usage()\<close> prints.
\<close>

datatype arg =
    ArgStr string
  | ArgInt int
  | ArgStrs "string list"
  | ArgErr error
  | ArgTime time
  | ArgFloat real

datatype line = Println string | Printf string "arg list" | Usage

subsection \<open>The collaborators\<close>

text \<open>
  An \<^verbatim>\<open>*http.Request\<close> as far as the program touches it: the rendering of its URL
  (\<^verbatim>\<open>req.URL.String()\<close>) and its header.
\<close>

record request =
  Method :: string
  URL :: string
  Header :: "(string \<times> string) list"

text \<open>\<^verbatim>\<open>req.Header.Set(key, value)\<close> replaces any value the key had.\<close>

definition Header_Set :: "string \<Rightarrow> string \<Rightarrow> request \<Rightarrow> request" where
  "Header_Set k v req = req\<lparr>Header := (k, v) # filter (\<lambda>kv. fst kv \<noteq> k) (Header req)\<rparr>"

text \<open>
  An \<^verbatim>\<open>*http.Response\<close>: its status code and what \<^verbatim>\<open>io.ReadAll(resp.Body)\<close> gives.
\<close>

record response =
  StatusCode :: int
  ReadAll :: "error + string"

text \<open>The structures the three routines decode a body into.\<close>

record vmItem =
  Metadata_Name :: string
  Status_PrintableStatus :: string

record migrationVm =
  Name :: string
  Started :: string
  Completed :: string

record migrationItem =
  Status_Namespace :: string
  Status_Vms :: "migrationVm list"

text \<open>What \<^verbatim>\<open>registry.Register\<close> answers.\<close>

datatype register_result = Registered | AlreadyRegisteredError | RegisterError error

text \<open>
  The environment. \<open>Do\<close> takes the number of requests the process has sent before, so the
  upstream may answer the same request differently at each poll. Each \<open>Unmarshal\<close> field is
  \<^verbatim>\<open>json.Unmarshal\<close> into one of the three anonymous structs (\<^verbatim>\<open>Items []struct{}\<close> for
  the count). \<open>ListenAndServe\<close> is \<open>None\<close> when the server binds and serves forever.
\<close>

record env =
  NewRequest :: "string \<Rightarrow> string \<Rightarrow> error + request"
  Do :: "nat \<Rightarrow> request \<Rightarrow> error + response"
  UnmarshalCount :: "string \<Rightarrow> error + unit list"
  UnmarshalNamesAndStatuses :: "string \<Rightarrow> error + vmItem list"
  UnmarshalMigrations :: "string \<Rightarrow> error + migrationItem list"
  Parse :: "string \<Rightarrow> string \<Rightarrow> error + time"
  Register :: "string \<Rightarrow> register_result"
  ListenAndServe :: "string \<Rightarrow> error option"

definition RFC3339 :: string where
  "RFC3339 = ''2006-01-02T15:04:05Z07:00''"

subsection \<open>Program state\<close>

text \<open>
  A metric vector maps a tuple of label values to the value of that series; \<open>None\<close> is a
  series that was never created. The four package-level vectors keep the source's names.
  \<open>requests\<close> counts the calls of \<^verbatim>\<open>client.Do\<close>; \<open>trace\<close> records, in order, each entry
  into a collection routine and each sleep of the background loop. Label values are taken
  to be valid UTF-8, which \<^verbatim>\<open>WithLabelValues\<close> requires: strings decoded from JSON always
  are, and the namespaces are those of the command line.
\<close>

type_synonym metricVec = "string list \<Rightarrow> real option"

datatype event =
    CountCall string
  | NamesAndStatusesCall string
  | MigrationTimeCall
  | Sleep int

record state =
  vmCountMetric :: metricVec
  vmStatusMetric :: metricVec
  failedMigrationsMetric :: metricVec
  migrationTimeMetric :: metricVec
  stdout :: "line list"
  requests :: nat
  trace :: "event list"

text \<open>
  A call either returns or panics; a panic in the background goroutine ends the process.
\<close>

datatype 'a result = Panic string | Return 'a

definition printf :: "string \<Rightarrow> arg list \<Rightarrow> state \<Rightarrow> state" where
  "printf fmt args st = st\<lparr>stdout := stdout st @ [Printf fmt args]\<rparr>"

definition enter :: "event \<Rightarrow> state \<Rightarrow> state" where
  "enter e st = st\<lparr>trace := trace st @ [e]\<rparr>"

definition nilDereference :: string where
  "nilDereference = ''runtime error: invalid memory address or nil pointer dereference''"

definition virtualmachinesURL :: "string \<Rightarrow> string \<Rightarrow> string" where
  "virtualmachinesURL serverURL namespace =
     serverURL @ ''/apis/kubevirt.io/v1/namespaces/'' @ namespace @ ''/virtualmachines''"

definition migrationsURL :: "string \<Rightarrow> string" where
  "migrationsURL serverURL = serverURL @ ''/apis/forklift.konveyor.io/v1beta1/migrations''"

definition unexpectedStatus :: "int \<Rightarrow> error" where
  "unexpectedStatus code = Errorf ''unexpected status code: %d'' [code]"

subsection \<open>exportVirtualMachineCount\<close>

text \<open>
  The request's URL is printed before the error of \<^verbatim>\<open>http.NewRequest\<close> is looked at;
  when that call fails the request is \<^verbatim>\<open>nil\<close> and the print panics, so the
  \<^verbatim>\<open>if err != nil\<close> that follows the print is never entered. The same holds for the
  other two routines. The assignment to the default transport's TLS configuration, with
  which each routine begins, changes nothing that is observed here.
\<close>

definition exportVirtualMachineCount ::
  "env \<Rightarrow> string \<Rightarrow> string \<Rightarrow> string \<Rightarrow> state \<Rightarrow> (error + int) result \<times> state" where
  "exportVirtualMachineCount e serverURL token namespace st0 =
     (let st1 = printf ''Fetching virtual machine count for namespace %s...\<newline>'' [ArgStr namespace]
                  (enter (CountCall namespace) st0)
      in case NewRequest e ''GET'' (virtualmachinesURL serverURL namespace) of
           Inl err \<Rightarrow> (Panic nilDereference, st1)
         | Inr req \<Rightarrow>
             let st2 = printf ''Request URL: %s\<newline>'' [ArgStr (URL req)] st1;
                 req' = Header_Set ''Authorization'' (''Bearer '' @ token) req;
                 st3 = st2\<lparr>requests := Suc (requests st2)\<rparr>
             in case Do e (requests st2) req' of
                  Inl err \<Rightarrow> (Return (Inl err), st3)
                | Inr resp \<Rightarrow>
                    if StatusCode resp \<noteq> 200
                    then (Return (Inl (unexpectedStatus (StatusCode resp))), st3)
                    else case ReadAll resp of
                           Inl err \<Rightarrow> (Return (Inl err), st3)
                         | Inr body \<Rightarrow>
                             (case UnmarshalCount e body of
                                Inl err \<Rightarrow> (Return (Inl err), st3)
                              | Inr items \<Rightarrow>
                                  let count = int (length items)
                                  in (Return (Inr count),
                                      st3\<lparr>vmCountMetric :=
                                            (vmCountMetric st3)([namespace] \<mapsto> real_of_int count)\<rparr>)))"

subsection \<open>exportVirtualMachineNamesAndStatuses\<close>

text \<open>
  The loop over the decoded items: each item is entered into the returned map and its
  status series is set to 1.
\<close>

fun namesAndStatusesLoop ::
  "string \<Rightarrow> vmItem list \<Rightarrow> (string \<Rightarrow> string option) \<Rightarrow> state
     \<Rightarrow> (string \<Rightarrow> string option) \<times> state" where
  "namesAndStatusesLoop namespace [] vmNamesAndStatuses st = (vmNamesAndStatuses, st)"
| "namesAndStatusesLoop namespace (vm # vms) vmNamesAndStatuses st =
     namesAndStatusesLoop namespace vms
       (vmNamesAndStatuses(Metadata_Name vm \<mapsto> Status_PrintableStatus vm))
       (st\<lparr>vmStatusMetric :=
             (vmStatusMetric st)
               ([namespace, Metadata_Name vm, Status_PrintableStatus vm] \<mapsto> 1)\<rparr>)"

definition exportVirtualMachineNamesAndStatuses ::
  "env \<Rightarrow> string \<Rightarrow> string \<Rightarrow> string \<Rightarrow> state
     \<Rightarrow> (error + (string \<Rightarrow> string option)) result \<times> state" where
  "exportVirtualMachineNamesAndStatuses e serverURL token namespace st0 =
     (let st1 = printf ''Fetching virtual machine names and statuses for namespace %s...\<newline>''
                  [ArgStr namespace] (enter (NamesAndStatusesCall namespace) st0)
      in case NewRequest e ''GET'' (virtualmachinesURL serverURL namespace) of
           Inl err \<Rightarrow> (Panic nilDereference, st1)
         | Inr req \<Rightarrow>
             let st2 = printf ''Request URL: %s\<newline>'' [ArgStr (URL req)] st1;
                 req' = Header_Set ''Authorization'' (''Bearer '' @ token) req;
                 st3 = st2\<lparr>requests := Suc (requests st2)\<rparr>
             in case Do e (requests st2) req' of
                  Inl err \<Rightarrow> (Return (Inl err), st3)
                | Inr resp \<Rightarrow>
                    if StatusCode resp \<noteq> 200
                    then (Return (Inl (unexpectedStatus (StatusCode resp))), st3)
                    else case ReadAll resp of
                           Inl err \<Rightarrow> (Return (Inl err), st3)
                         | Inr body \<Rightarrow>
                             (case UnmarshalNamesAndStatuses e body of
                                Inl err \<Rightarrow> (Return (Inl err), st3)
                              | Inr items \<Rightarrow>
                                  (case namesAndStatusesLoop namespace items Map.empty st3 of
                                     (vmNamesAndStatuses, st4) \<Rightarrow>
                                       (Return (Inr vmNamesAndStatuses), st4))))"

subsection \<open>exportVirtualMachineMigrationTime\<close>

text \<open>
  The body of the inner loop, for one VM entry of a migration: a timestamp that does not
  parse is reported and the entry is left (\<^verbatim>\<open>continue\<close>); otherwise the duration is
  computed, printed and stored.
\<close>

definition migrationVmBody :: "env \<Rightarrow> string \<Rightarrow> migrationVm \<Rightarrow> state \<Rightarrow> state" where
  "migrationVmBody e namespace vm st =
     (case Parse e RFC3339 (Started vm) of
        Inl err \<Rightarrow>
          printf ''Error parsing start time for VM %s: %v\<newline>'' [ArgStr (Name vm), ArgErr err] st
      | Inr started \<Rightarrow>
          let st1 = printf ''VM %s started at: %s\<newline>'' [ArgStr (Name vm), ArgTime started] st
          in case Parse e RFC3339 (Completed vm) of
               Inl err \<Rightarrow>
                 printf ''Error parsing completion time for VM %s: %v\<newline>''
                   [ArgStr (Name vm), ArgErr err] st1
             | Inr completed \<Rightarrow>
                 let st2 = printf ''VM %s completed at: %s\<newline>''
                             [ArgStr (Name vm), ArgTime completed] st1;
                     duration = Seconds (Sub completed started);
                     st3 = printf ''VM %s migration duration: %f seconds\<newline>''
                             [ArgStr (Name vm), ArgFloat duration] st2
                 in st3\<lparr>migrationTimeMetric :=
                          (migrationTimeMetric st3)([namespace, Name vm] \<mapsto> duration)\<rparr>)"

fun migrationVmsLoop :: "env \<Rightarrow> string \<Rightarrow> migrationVm list \<Rightarrow> state \<Rightarrow> state" where
  "migrationVmsLoop e namespace [] st = st"
| "migrationVmsLoop e namespace (vm # vms) st =
     migrationVmsLoop e namespace vms (migrationVmBody e namespace vm st)"

fun migrationsLoop :: "env \<Rightarrow> migrationItem list \<Rightarrow> state \<Rightarrow> state" where
  "migrationsLoop e [] st = st"
| "migrationsLoop e (migration # migrations) st =
     migrationsLoop e migrations
       (migrationVmsLoop e (Status_Namespace migration) (Status_Vms migration) st)"

definition exportVirtualMachineMigrationTime ::
  "env \<Rightarrow> string \<Rightarrow> string \<Rightarrow> state \<Rightarrow> (error + bool) result \<times> state" where
  "exportVirtualMachineMigrationTime e serverURL token st0 =
     (let st1 = enter MigrationTimeCall st0
      in case NewRequest e ''GET'' (migrationsURL serverURL) of
           Inl err \<Rightarrow> (Panic nilDereference, st1)
         | Inr req \<Rightarrow>
             let st2 = printf ''Request URL: %s\<newline>'' [ArgStr (URL req)] st1;
                 req' = Header_Set ''Authorization'' (''Bearer '' @ token) req;
                 st3 = st2\<lparr>requests := Suc (requests st2)\<rparr>
             in case Do e (requests st2) req' of
                  Inl err \<Rightarrow> (Return (Inl err), st3)
                | Inr resp \<Rightarrow>
                    let st4 = printf ''Response status code when calling API for migrations: %d\<newline>''
                                [ArgInt (StatusCode resp)] st3
                    in if StatusCode resp \<noteq> 200
                       then (Return (Inl (unexpectedStatus (StatusCode resp))), st4)
                       else case ReadAll resp of
                              Inl err \<Rightarrow> (Return (Inl err), st4)
                            | Inr body \<Rightarrow>
                                (case UnmarshalMigrations e body of
                                   Inl err \<Rightarrow> (Return (Inl err), st4)
                                 | Inr items \<Rightarrow>
                                     (Return (Inr True), migrationsLoop e items st4)))"

subsection \<open>The background loop of startCmd\<close>

definition sleepSeconds :: int where
  "sleepSeconds = 15"

text \<open>
  \<^verbatim>\<open>for _, namespace := range namespaceList\<close>: the count, then the names and statuses, of
  each namespace in turn. What the two calls return is dropped; a panic ends the loop.
\<close>

fun namespacesLoop ::
  "env \<Rightarrow> string \<Rightarrow> string \<Rightarrow> string list \<Rightarrow> state \<Rightarrow> unit result \<times> state" where
  "namespacesLoop e serverURL token [] st = (Return (), st)"
| "namespacesLoop e serverURL token (namespace # rest) st =
     (case exportVirtualMachineCount e serverURL token namespace st of
        (Panic p, st1) \<Rightarrow> (Panic p, st1)
      | (Return r1, st1) \<Rightarrow>
          (case exportVirtualMachineNamesAndStatuses e serverURL token namespace st1 of
             (Panic p, st2) \<Rightarrow> (Panic p, st2)
           | (Return r2, st2) \<Rightarrow> namespacesLoop e serverURL token rest st2))"

text \<open>One iteration of the outer \<^verbatim>\<open>for\<close>, the sleep included.\<close>

definition pollOnce ::
  "env \<Rightarrow> string \<Rightarrow> string \<Rightarrow> string list \<Rightarrow> state \<Rightarrow> unit result \<times> state" where
  "pollOnce e serverURL token namespaceList st =
     (case namespacesLoop e serverURL token namespaceList st of
        (Panic p, st1) \<Rightarrow> (Panic p, st1)
      | (Return u, st1) \<Rightarrow>
          (case exportVirtualMachineMigrationTime e serverURL token st1 of
             (Panic p, st2) \<Rightarrow> (Panic p, st2)
           | (Return r, st2) \<Rightarrow> (Return (), enter (Sleep (sleepSeconds * Second)) st2)))"

text \<open>
  The loop has no exit of its own. \<open>pollLoop n\<close> runs its first \<open>n\<close> iterations:
  \<open>Return ()\<close> says that all \<open>n\<close> were completed and the loop goes on to the next one,
  \<open>Panic\<close> that the goroutine panicked on the way.
\<close>

fun pollLoop ::
  "env \<Rightarrow> string \<Rightarrow> string \<Rightarrow> string list \<Rightarrow> nat \<Rightarrow> state \<Rightarrow> unit result \<times> state" where
  "pollLoop e serverURL token namespaceList 0 st = (Return (), st)"
| "pollLoop e serverURL token namespaceList (Suc n) st =
     (case pollOnce e serverURL token namespaceList st of
        (Panic p, st1) \<Rightarrow> (Panic p, st1)
      | (Return u, st1) \<Rightarrow> pollLoop e serverURL token namespaceList n st1)"

subsection \<open>startCmd\<close>

text \<open>\<^verbatim>\<open>strings.Split(s, ",")\<close>, for a separator of one character.\<close>

fun Split :: "string \<Rightarrow> char \<Rightarrow> string list" where
  "Split [] sep = [[]]"
| "Split (c # s) sep =
     (if c = sep then [] # Split s sep
      else (case Split s sep of
              [] \<Rightarrow> [[c]]
            | part # parts \<Rightarrow> (c # part) # parts))"

text \<open>
  What the main goroutine did: the lines it printed, the code it exited with (\<open>None\<close> when
  it went on to serve), and the namespace list the background loop was started with
  (\<open>None\<close> when the loop was never started).
\<close>

record startup =
  printed :: "line list"
  exitCode :: "int option"
  background :: "string list option"

definition banner :: "string \<Rightarrow> string list \<Rightarrow> line list" where
  "banner serverURL namespaceList =
     [Println ''========================================'',
      Println ''          vmmig_bench Exporter          '',
      Println ''          Powered by DevOpsTribe.it     '',
      Println ''========================================'',
      Printf ''start called with --token=*** --server-url=%s --namespaces=%v\<newline>''
        [ArgStr serverURL, ArgStrs namespaceList],
      Println ''Starting Prometheus exporter...'',
      Println ''Initializing Prometheus exporter...'']"

text \<open>
  The \<^verbatim>\<open>Run\<close> function of the command, as the main goroutine executes it. A registration
  that fails with \<^verbatim>\<open>AlreadyRegisteredError\<close> rebinds the variable to the collector the
  registry holds and goes on; the registry is created in this function and is offered the
  four package-level collectors only, so the rebinding leaves the variable as it was. Any
  other registration error is printed and the process exits with code 1. The background
  loop is started before the listener.
\<close>

definition startCmd :: "env \<Rightarrow> string \<Rightarrow> string \<Rightarrow> string \<Rightarrow> startup" where
  "startCmd e token serverURL namespaces =
     (if token = [] \<or> serverURL = [] \<or> namespaces = []
      then \<lparr>printed = [Println ''Error: --token, --server-url, and --namespaces are required parameters'',
                        Usage],
            exitCode = Some 1, background = None\<rparr>
      else
        let namespaceList = Split namespaces CHR '','';
            out = banner serverURL namespaceList
        in case Register e ''vmStatusMetric'' of
             RegisterError err \<Rightarrow>
               \<lparr>printed = out @ [Printf ''Error registering vmStatusMetric: %v\<newline>'' [ArgErr err]],
                exitCode = Some 1, background = None\<rparr>
           | _ \<Rightarrow>
          (case Register e ''failedMigrationsMetric'' of
             RegisterError err \<Rightarrow>
               \<lparr>printed = out @ [Printf ''Error registering failedMigrationsMetric: %v\<newline>'' [ArgErr err]],
                exitCode = Some 1, background = None\<rparr>
           | _ \<Rightarrow>
          (case Register e ''migrationTimeMetric'' of
             RegisterError err \<Rightarrow>
               \<lparr>printed = out @ [Printf ''Error registering migrationTimeMetric: %v\<newline>'' [ArgErr err]],
                exitCode = Some 1, background = None\<rparr>
           | _ \<Rightarrow>
          (case Register e ''vmCountMetric'' of
             RegisterError err \<Rightarrow>
               \<lparr>printed = out @ [Printf ''Error registering vmCountMetric: %v\<newline>'' [ArgErr err]],
                exitCode = Some 1, background = None\<rparr>
           | _ \<Rightarrow>
               let out1 = out @ [Println ''Prometheus exporter initialized successfully.'',
                                 Println ''Starting Prometheus exporter on :8080'']
               in (case ListenAndServe e '':8080'' of
                     Some err \<Rightarrow>
                       \<lparr>printed = out1 @ [Printf ''Error starting Prometheus exporter: %v\<newline>'' [ArgErr err]],
                        exitCode = Some 1, background = Some namespaceList\<rparr>
                   | None \<Rightarrow>
                       \<lparr>printed = out1, exitCode = None, background = Some namespaceList\<rparr>)))))"

text \<open>
  The state the background loop starts from: \<^verbatim>\<open>init\<close> creates and registers the four
  vectors, none of which has a series yet.
\<close>

definition initial :: state where
  "initial = \<lparr>vmCountMetric = Map.empty, vmStatusMetric = Map.empty,
              failedMigrationsMetric = Map.empty, migrationTimeMetric = Map.empty,
              stdout = [], requests = 0, trace = []\<rparr>"

text \<open>
  The process: what the main goroutine did, and, when it started the background loop, the
  outcome and the state of the loop after its first \<open>n\<close> iterations. The two goroutines
  run concurrently: how their lines interleave, and how far the loop gets before a
  process that exits is gone, is not determined by the program.
\<close>

definition run ::
  "env \<Rightarrow> string \<Rightarrow> string \<Rightarrow> string \<Rightarrow> nat \<Rightarrow> startup \<times> (unit result \<times> state) option" where
  "run e token serverURL namespaces n =
     (let s = startCmd e token serverURL namespaces
      in (s, case background s of
               None \<Rightarrow> None
             | Some namespaceList \<Rightarrow> Some (pollLoop e serverURL token namespaceList n initial)))"

subsection \<open>A reference reading of RFC 3339 timestamps\<close>

text \<open>
  The theorems below hold for any \<open>Parse\<close>. To run the routines on concrete timestamps,
  \<open>timeParse\<close> stands for \<^verbatim>\<open>time.Parse\<close> with the layout \<^verbatim>\<open>time.RFC3339\<close>, the only
  layout the program uses:
  \<open>parseRFC3339\<close> reads the timestamps of the form
  \<^verbatim>\<open>YYYY-MM-DDThh:mm:ss[.fraction](Z|+hh:mm|-hh:mm)\<close>, which \<^verbatim>\<open>time.Parse\<close> accepts with
  the layout \<^verbatim>\<open>time.RFC3339\<close>, and rejects everything else; of a fraction the first nine
  digits count. The instant is counted from 0001-01-01T00:00:00Z in the proleptic Gregorian
  calendar, as Go counts it.
\<close>

definition digitVal :: "char \<Rightarrow> nat option" where
  "digitVal c =
     (let n = (of_char c :: nat) in if 48 \<le> n \<and> n \<le> 57 then Some (n - 48) else None)"

fun digits :: "nat \<Rightarrow> string \<Rightarrow> (nat \<times> string) option" where
  "digits 0 s = Some (0, s)"
| "digits (Suc k) [] = None"
| "digits (Suc k) (c # s) =
     (case digitVal c of
        None \<Rightarrow> None
      | Some d \<Rightarrow>
          (case digits k s of None \<Rightarrow> None | Some (v, r) \<Rightarrow> Some (d * 10 ^ k + v, r)))"

fun expect :: "char \<Rightarrow> string \<Rightarrow> string option" where
  "expect c [] = None"
| "expect c (x # s) = (if x = c then Some s else None)"

definition isLeap :: "nat \<Rightarrow> bool" where
  "isLeap y = (y mod 4 = 0 \<and> (y mod 100 \<noteq> 0 \<or> y mod 400 = 0))"

definition daysIn :: "nat \<Rightarrow> nat \<Rightarrow> nat" where
  "daysIn m y =
     (if m = 2 then (if isLeap y then 29 else 28)
      else if m = 4 \<or> m = 6 \<or> m = 9 \<or> m = 11 then 30 else 31)"

definition daysBefore :: "nat \<Rightarrow> nat \<Rightarrow> nat" where
  "daysBefore m y = sum_list (map (\<lambda>k. daysIn k y) [1..<m])"

definition daysSinceEpoch :: "nat \<Rightarrow> nat \<Rightarrow> nat \<Rightarrow> int" where
  "daysSinceEpoch y m d =
     (let p = int y - 1
      in 365 * p + p div 4 - p div 100 + p div 400 + int (daysBefore m y) + int d - 1)"

definition fraction :: "string \<Rightarrow> (nat \<times> string) option" where
  "fraction s =
     (case s of
        [] \<Rightarrow> Some (0, s)
      | c # r \<Rightarrow>
          (if c = CHR ''.''
           then (let ds = takeWhile (\<lambda>x. digitVal x \<noteq> None) r;
                     ds9 = take 9 ds
                 in if ds = [] then None
                    else (case digits (length ds9) ds9 of
                            None \<Rightarrow> None
                          | Some (v, u) \<Rightarrow>
                              Some (v * 10 ^ (9 - length ds9),
                                    dropWhile (\<lambda>x. digitVal x \<noteq> None) r)))
           else Some (0, s)))"

definition zone :: "string \<Rightarrow> int option" where
  "zone s =
     (if s = ''Z'' then Some 0
      else case s of
             [] \<Rightarrow> None
           | c # r \<Rightarrow>
               (if c = CHR ''+'' \<or> c = CHR ''-''
                then do {
                  (hh, r1) \<leftarrow> digits 2 r;
                  r2 \<leftarrow> expect CHR '':'' r1;
                  (mm, r3) \<leftarrow> digits 2 r2;
                  if r3 = [] \<and> hh < 24 \<and> mm < 60
                  then Some ((if c = CHR ''-'' then - 1 else 1) * (int hh * 3600 + int mm * 60))
                  else None }
                else None))"

definition parseRFC3339 :: "string \<Rightarrow> time option" where
  "parseRFC3339 s0 = do {
     (year, s1) \<leftarrow> digits 4 s0;
     s2 \<leftarrow> expect CHR ''-'' s1;
     (month, s3) \<leftarrow> digits 2 s2;
     s4 \<leftarrow> expect CHR ''-'' s3;
     (day, s5) \<leftarrow> digits 2 s4;
     s6 \<leftarrow> expect CHR ''T'' s5;
     (hour, s7) \<leftarrow> digits 2 s6;
     s8 \<leftarrow> expect CHR '':'' s7;
     (minute, s9) \<leftarrow> digits 2 s8;
     s10 \<leftarrow> expect CHR '':'' s9;
     (sec, s11) \<leftarrow> digits 2 s10;
     (nsec, s12) \<leftarrow> fraction s11;
     off \<leftarrow> zone s12;
     if 1 \<le> month \<and> month \<le> 12 \<and> 1 \<le> day \<and> day \<le> daysIn month year
        \<and> hour < 24 \<and> minute < 60 \<and> sec < 60
     then Some \<lparr>instant =
                  ((daysSinceEpoch year month day * 86400
                    + int hour * 3600 + int minute * 60 + int sec) - off) * 1000000000
                  + int nsec,
                offset = off\<rparr>
     else None }"

definition timeParse :: "string \<Rightarrow> string \<Rightarrow> error + time" where
  "timeParse layout v =
     (case parseRFC3339 v of
        None \<Rightarrow> Inl (LibError ''parsing time: cannot parse value as layout'')
      | Some t \<Rightarrow> Inr t)"

subsection \<open>A cluster to run the exporter against\<close>

text \<open>
  The cluster of the repository's README: the namespace \<^verbatim>\<open>default\<close> has no virtual
  machine, \<^verbatim>\<open>migrationlab\<close> has the running machine \<^verbatim>\<open>rocky9-esxi\<close>, and a migration
  reports \<^verbatim>\<open>centos-stream10-apricot-slug-73\<close> (1043 seconds) and \<^verbatim>\<open>rocky9-esxi\<close>
  (999 seconds) under an empty namespace. The migrations listed after them exercise the
  other branches of the loop: a machine that has not completed, one whose start is Go's
  zero time, one that completed five seconds before it started, and one whose completion
  is the zero time. The namespace \<^verbatim>\<open>garbled\<close> is answered with a body that is not
  JSON, the server \<^verbatim>\<open>https://down:6443\<close> refuses the connection, and everything else is
  answered with status 404. Bodies are named rather than spelt out, the decoders being
  tables.
\<close>

definition labServer :: string where
  "labServer = ''https://lab:6443''"

text \<open>
  \<^verbatim>\<open>http.NewRequest\<close> fails when \<^verbatim>\<open>url.Parse\<close> does; of its checks only the first is
  kept here: a URL that starts with a colon has no protocol scheme.
\<close>

definition labNewRequest :: "string \<Rightarrow> string \<Rightarrow> error + request" where
  "labNewRequest method url =
     (case url of
        [] \<Rightarrow> Inr \<lparr>Method = method, URL = url, Header = []\<rparr>
      | c # r \<Rightarrow>
          if c = CHR '':'' then Inl (LibError ''parse: missing protocol scheme'')
          else Inr \<lparr>Method = method, URL = url, Header = []\<rparr>)"

definition labDo :: "nat \<Rightarrow> request \<Rightarrow> error + response" where
  "labDo n req =
     (if URL req = virtualmachinesURL labServer ''migrationlab''
      then Inr \<lparr>StatusCode = 200, ReadAll = Inr ''vms of migrationlab''\<rparr>
      else if URL req = virtualmachinesURL labServer ''default''
      then Inr \<lparr>StatusCode = 200, ReadAll = Inr ''vms of default''\<rparr>
      else if URL req = migrationsURL labServer
      then Inr \<lparr>StatusCode = 200, ReadAll = Inr ''migrations''\<rparr>
      else if URL req = virtualmachinesURL labServer ''garbled''
      then Inr \<lparr>StatusCode = 200, ReadAll = Inr ''not json''\<rparr>
      else if URL req = virtualmachinesURL ''https://down:6443'' ''default''
      then Inl (LibError ''dial tcp: connection refused'')
      else Inr \<lparr>StatusCode = 404, ReadAll = Inr ''not found''\<rparr>)"

definition labUnmarshalCount :: "string \<Rightarrow> error + unit list" where
  "labUnmarshalCount body =
     (if body = ''vms of migrationlab'' then Inr [()]
      else if body = ''vms of default'' then Inr []
      else Inl (LibError ''invalid character in JSON''))"

definition labUnmarshalNamesAndStatuses :: "string \<Rightarrow> error + vmItem list" where
  "labUnmarshalNamesAndStatuses body =
     (if body = ''vms of migrationlab''
      then Inr [\<lparr>Metadata_Name = ''rocky9-esxi'', Status_PrintableStatus = ''Running''\<rparr>]
      else if body = ''vms of default'' then Inr []
      else Inl (LibError ''invalid character in JSON''))"

definition labMigrations :: "migrationItem list" where
  "labMigrations =
     [\<lparr>Status_Namespace = [],
       Status_Vms =
         [\<lparr>Name = ''centos-stream10-apricot-slug-73'',
           Started = ''2025-05-20T10:00:00Z'', Completed = ''2025-05-20T10:17:23Z''\<rparr>,
          \<lparr>Name = ''fedora-pending'',
           Started = ''2025-05-20T12:00:00Z'', Completed = []\<rparr>,
          \<lparr>Name = ''rocky9-esxi'',
           Started = ''2025-05-20T11:00:00Z'', Completed = ''2025-05-20T11:16:39Z''\<rparr>]\<rparr>,
      \<lparr>Status_Namespace = ''legacy'',
       Status_Vms =
         [\<lparr>Name = ''zero-start'',
           Started = ''0001-01-01T00:00:00Z'', Completed = ''2025-05-20T10:00:00Z''\<rparr>,
          \<lparr>Name = ''clock-skew'',
           Started = ''2025-05-20T10:00:05Z'', Completed = ''2025-05-20T10:00:00Z''\<rparr>,
          \<lparr>Name = ''zero-end'',
           Started = ''2025-05-20T10:00:00Z'', Completed = ''0001-01-01T00:00:00Z''\<rparr>]\<rparr>]"

definition labUnmarshalMigrations :: "string \<Rightarrow> error + migrationItem list" where
  "labUnmarshalMigrations body =
     (if body = ''migrations'' then Inr labMigrations
      else Inl (LibError ''invalid character in JSON''))"

definition lab :: env where
  "lab = \<lparr>NewRequest = labNewRequest, Do = labDo,
          UnmarshalCount = labUnmarshalCount,
          UnmarshalNamesAndStatuses = labUnmarshalNamesAndStatuses,
          UnmarshalMigrations = labUnmarshalMigrations,
          Parse = timeParse,
          Register = (\<lambda>c. Registered),
          ListenAndServe = (\<lambda>addr. None)\<rparr>"

subsection \<open>Vocabulary of the properties\<close>

text \<open>The values of all series of the four vectors.\<close>

definition metrics :: "state \<Rightarrow> metricVec \<times> metricVec \<times> metricVec \<times> metricVec" where
  "metrics st =
     (vmCountMetric st, vmStatusMetric st, failedMigrationsMetric st, migrationTimeMetric st)"

text \<open>
  A poll of \<open>url\<close> fails when the request is sent and the transport returns an error, or
  the status is not 200, or the body cannot be read, or it cannot be decoded. \<open>n\<close> is the
  number of requests sent before.
\<close>

definition pollFails ::
  "env \<Rightarrow> string \<Rightarrow> string \<Rightarrow> nat \<Rightarrow> (string \<Rightarrow> error + 'a) \<Rightarrow> bool" where
  "pollFails e url token n decode =
     (case NewRequest e ''GET'' url of
        Inl err \<Rightarrow> False
      | Inr req \<Rightarrow>
          (case Do e n (Header_Set ''Authorization'' (''Bearer '' @ token) req) of
             Inl err \<Rightarrow> True
           | Inr resp \<Rightarrow>
               StatusCode resp \<noteq> 200 \<or>
               (case ReadAll resp of Inl err \<Rightarrow> True | Inr body \<Rightarrow> isl (decode body))))"

text \<open>The poll of \<open>url\<close> is answered with the status \<open>code\<close>.\<close>

definition answeredWith :: "env \<Rightarrow> string \<Rightarrow> string \<Rightarrow> nat \<Rightarrow> int \<Rightarrow> bool" where
  "answeredWith e url token n code =
     (case NewRequest e ''GET'' url of
        Inl err \<Rightarrow> False
      | Inr req \<Rightarrow>
          (case Do e n (Header_Set ''Authorization'' (''Bearer '' @ token) req) of
             Inl err \<Rightarrow> False
           | Inr resp \<Rightarrow> StatusCode resp = code))"








text \<open>
  The entries the trace gets in one iteration of the background loop that runs through.
\<close>

definition cycleEvents :: "string list \<Rightarrow> event list" where
  "cycleEvents namespaceList =
     concat (map (\<lambda>ns. [CountCall ns, NamesAndStatusesCall ns]) namespaceList)
     @ [MigrationTimeCall, Sleep (sleepSeconds * Second)]"

text \<open>Every request the background loop builds can be built.\<close>

definition requestsBuilt :: "env \<Rightarrow> string \<Rightarrow> string list \<Rightarrow> bool" where
  "requestsBuilt e serverURL namespaceList =
     (list_all (\<lambda>ns. \<not> isl (NewRequest e ''GET'' (virtualmachinesURL serverURL ns))) namespaceList
      \<and> \<not> isl (NewRequest e ''GET'' (migrationsURL serverURL)))"

text \<open>
  The upstream answers a request alike whichever of the two tokens it carries.
\<close>

definition tokenBlind :: "env \<Rightarrow> string \<Rightarrow> string \<Rightarrow> bool" where
  "tokenBlind e t1 t2 =
     (\<forall>n req. Do e n (Header_Set ''Authorization'' (''Bearer '' @ t1) req)
              = Do e n (Header_Set ''Authorization'' (''Bearer '' @ t2) req))"







section \<open>Properties\<close>

subsection \<open>Durations\<close>

lemma Seconds_eq: "Seconds d = real_of_int d / 1000000000"
proof -
  have "d sdiv Second * Second + d smod Second = d"
    by (rule sdiv_mult_smod_eq)
  then have "real_of_int d = real_of_int (d sdiv Second) * 1000000000 + real_of_int (d smod Second)"
    by (metis Second_def of_int_add of_int_mult of_int_numeral)
  then show ?thesis
    by (simp add: Seconds_def field_simps)
qed

subsection \<open>What printing and bookkeeping leave alone\<close>

lemma metrics_printf [simp]: "metrics (printf f a st) = metrics st"
  by (simp add: metrics_def printf_def)

lemma metrics_enter [simp]: "metrics (enter ev st) = metrics st"
  by (simp add: metrics_def enter_def)

lemma metrics_requests [simp]: "metrics (st\<lparr>requests := n\<rparr>) = metrics st"
  by (simp add: metrics_def)

lemma requests_printf [simp]: "requests (printf f a st) = requests st"
  by (simp add: printf_def)

lemma requests_enter [simp]: "requests (enter ev st) = requests st"
  by (simp add: enter_def)

subsection \<open>The cluster's answers\<close>

lemma lab_fields [simp]:
  "NewRequest lab = labNewRequest" "Do lab = labDo"
  "UnmarshalCount lab = labUnmarshalCount"
  "UnmarshalNamesAndStatuses lab = labUnmarshalNamesAndStatuses"
  "UnmarshalMigrations lab = labUnmarshalMigrations"
  "Parse lab = timeParse"
  "Register lab c = Registered"
  "ListenAndServe lab addr = None"
  by (simp_all add: lab_def)

lemma requests_initial [simp]: "requests initial = 0"
  by (simp add: initial_def)



subsection \<open>The count of virtual machines\<close>



subsection \<open>Failed polls\<close>

lemma count_poll_fails:
  assumes "pollFails e (virtualmachinesURL serverURL namespace) token (requests st) (UnmarshalCount e)"
  shows "(\<exists>err. fst (exportVirtualMachineCount e serverURL token namespace st) = Return (Inl err))
       \<and> metrics (snd (exportVirtualMachineCount e serverURL token namespace st)) = metrics st"
  using assms
  by (auto simp: exportVirtualMachineCount_def pollFails_def Let_def isl_def split: sum.splits)

lemma namesAndStatuses_poll_fails:
  assumes "pollFails e (virtualmachinesURL serverURL namespace) token (requests st)
             (UnmarshalNamesAndStatuses e)"
  shows "(\<exists>err. fst (exportVirtualMachineNamesAndStatuses e serverURL token namespace st)
                  = Return (Inl err))
       \<and> metrics (snd (exportVirtualMachineNamesAndStatuses e serverURL token namespace st))
           = metrics st"
  using assms
  by (auto simp: exportVirtualMachineNamesAndStatuses_def pollFails_def Let_def isl_def
           split: sum.splits)

lemma migrationTime_poll_fails:
  assumes "pollFails e (migrationsURL serverURL) token (requests st) (UnmarshalMigrations e)"
  shows "(\<exists>err. fst (exportVirtualMachineMigrationTime e serverURL token st) = Return (Inl err))
       \<and> metrics (snd (exportVirtualMachineMigrationTime e serverURL token st)) = metrics st"
  using assms
  by (auto simp: exportVirtualMachineMigrationTime_def pollFails_def Let_def isl_def
           split: sum.splits)

lemma count_status_error:
  assumes "answeredWith e (virtualmachinesURL serverURL namespace) token (requests st) code"
    and "code \<noteq> 200"
  shows "fst (exportVirtualMachineCount e serverURL token namespace st)
           = Return (Inl (Errorf ''unexpected status code: %d'' [code]))"
  using assms
  by (auto simp: exportVirtualMachineCount_def answeredWith_def unexpectedStatus_def Let_def
           split: sum.splits)

lemma namesAndStatuses_status_error:
  assumes "answeredWith e (virtualmachinesURL serverURL namespace) token (requests st) code"
    and "code \<noteq> 200"
  shows "fst (exportVirtualMachineNamesAndStatuses e serverURL token namespace st)
           = Return (Inl (Errorf ''unexpected status code: %d'' [code]))"
  using assms
  by (auto simp: exportVirtualMachineNamesAndStatuses_def answeredWith_def unexpectedStatus_def
                 Let_def split: sum.splits)

lemma migrationTime_status_error:
  assumes "answeredWith e (migrationsURL serverURL) token (requests st) code"
    and "code \<noteq> 200"
  shows "fst (exportVirtualMachineMigrationTime e serverURL token st)
           = Return (Inl (Errorf ''unexpected status code: %d'' [code]))"
  using assms
  by (auto simp: exportVirtualMachineMigrationTime_def answeredWith_def unexpectedStatus_def
                 Let_def split: sum.splits)

text \<open>
  Claim C4. When a poll fails (the transport returns an error, the status is not 200, the
  body cannot be read or the JSON cannot be decoded), each of the three routines returns
  an error and leaves every series of every vector as it was; when the upstream answered
  with a status other than 200, the error is \<^verbatim>\<open>unexpected status code: %d\<close> with that
  status.
\<close>

theorem failed_poll_writes_no_metric:
  "(pollFails e (virtualmachinesURL serverURL namespace) token (requests st) (UnmarshalCount e) \<longrightarrow>
      (\<exists>err. fst (exportVirtualMachineCount e serverURL token namespace st) = Return (Inl err))
      \<and> metrics (snd (exportVirtualMachineCount e serverURL token namespace st)) = metrics st)
   \<and> (pollFails e (virtualmachinesURL serverURL namespace) token (requests st)
         (UnmarshalNamesAndStatuses e) \<longrightarrow>
      (\<exists>err. fst (exportVirtualMachineNamesAndStatuses e serverURL token namespace st)
                = Return (Inl err))
      \<and> metrics (snd (exportVirtualMachineNamesAndStatuses e serverURL token namespace st))
          = metrics st)
   \<and> (pollFails e (migrationsURL serverURL) token (requests st) (UnmarshalMigrations e) \<longrightarrow>
      (\<exists>err. fst (exportVirtualMachineMigrationTime e serverURL token st) = Return (Inl err))
      \<and> metrics (snd (exportVirtualMachineMigrationTime e serverURL token st)) = metrics st)
   \<and> (answeredWith e (virtualmachinesURL serverURL namespace) token (requests st) code
       \<and> code \<noteq> 200 \<longrightarrow>
      fst (exportVirtualMachineCount e serverURL token namespace st)
        = Return (Inl (Errorf ''unexpected status code: %d'' [code]))
      \<and> fst (exportVirtualMachineNamesAndStatuses e serverURL token namespace st)
        = Return (Inl (Errorf ''unexpected status code: %d'' [code])))
   \<and> (answeredWith e (migrationsURL serverURL) token (requests st) code \<and> code \<noteq> 200 \<longrightarrow>
      fst (exportVirtualMachineMigrationTime e serverURL token st)
        = Return (Inl (Errorf ''unexpected status code: %d'' [code])))"
  using count_poll_fails [of e serverURL namespace token st]
    namesAndStatuses_poll_fails [of e serverURL namespace token st]
    migrationTime_poll_fails [of e serverURL token st]
    count_status_error [of e serverURL namespace token st code]
    namesAndStatuses_status_error [of e serverURL namespace token st code]
    migrationTime_status_error [of e serverURL token st code]
  by blast

lemma lab_elsewhere_fails:
  "pollFails lab (virtualmachinesURL ''https://elsewhere'' ''default'') ''xxx'' 0 decode"
  "pollFails lab (migrationsURL ''https://elsewhere'') ''xxx'' 0 decode"
  by (simp_all add: pollFails_def labNewRequest_def labDo_def Header_Set_def
        virtualmachinesURL_def migrationsURL_def labServer_def)

lemma lab_elsewhere_404:
  "answeredWith lab (virtualmachinesURL ''https://elsewhere'' ''default'') ''xxx'' 0 404"
  "answeredWith lab (migrationsURL ''https://elsewhere'') ''xxx'' 0 404"
  by (simp_all add: pollFails_def answeredWith_def labNewRequest_def labDo_def Header_Set_def
        virtualmachinesURL_def migrationsURL_def labServer_def)

theorem failed_poll_writes_no_metric_witness:
  "pollFails lab (virtualmachinesURL ''https://elsewhere'' ''default'') ''xxx'' (requests initial)
     (UnmarshalCount lab)
   \<and> pollFails lab (migrationsURL ''https://elsewhere'') ''xxx'' (requests initial)
       (UnmarshalMigrations lab)
   \<and> answeredWith lab (migrationsURL ''https://elsewhere'') ''xxx'' (requests initial) 404
   \<and> fst (exportVirtualMachineCount lab ''https://elsewhere'' ''xxx'' ''default'' initial)
       = Return (Inl (Errorf ''unexpected status code: %d'' [404]))
   \<and> metrics (snd (exportVirtualMachineCount lab ''https://elsewhere'' ''xxx'' ''default'' initial))
       = metrics initial
   \<and> fst (exportVirtualMachineNamesAndStatuses lab ''https://elsewhere'' ''xxx'' ''default'' initial)
       = Return (Inl (Errorf ''unexpected status code: %d'' [404]))
   \<and> metrics (snd (exportVirtualMachineNamesAndStatuses lab ''https://elsewhere'' ''xxx''
                     ''default'' initial))
       = metrics initial
   \<and> fst (exportVirtualMachineMigrationTime lab ''https://elsewhere'' ''xxx'' initial)
       = Return (Inl (Errorf ''unexpected status code: %d'' [404]))
   \<and> metrics (snd (exportVirtualMachineMigrationTime lab ''https://elsewhere'' ''xxx'' initial))
       = metrics initial
   \<and> pollFails lab (virtualmachinesURL labServer ''garbled'') ''xxx'' (requests initial)
       (UnmarshalCount lab)
   \<and> metrics (snd (exportVirtualMachineCount lab labServer ''xxx'' ''garbled'' initial))
       = metrics initial
   \<and> pollFails lab (virtualmachinesURL ''https://down:6443'' ''default'') ''xxx''
       (requests initial) (UnmarshalNamesAndStatuses lab)
   \<and> metrics (snd (exportVirtualMachineNamesAndStatuses lab ''https://down:6443'' ''xxx''
                     ''default'' initial))
       = metrics initial"
proof -
  have garbled: "pollFails lab (virtualmachinesURL labServer ''garbled'') ''xxx''
      (requests initial) (UnmarshalCount lab)"
    by (simp add: pollFails_def labNewRequest_def labDo_def Header_Set_def labUnmarshalCount_def
          virtualmachinesURL_def labServer_def)
  have down: "pollFails lab (virtualmachinesURL ''https://down:6443'' ''default'') ''xxx''
      (requests initial) (UnmarshalNamesAndStatuses lab)"
    by (simp add: pollFails_def labNewRequest_def labDo_def Header_Set_def
          virtualmachinesURL_def migrationsURL_def labServer_def)
  from failed_poll_writes_no_metric [of lab labServer "''garbled''" "''xxx''" initial] garbled
  have 1: "metrics (snd (exportVirtualMachineCount lab labServer ''xxx'' ''garbled'' initial))
             = metrics initial"
    by blast
  from failed_poll_writes_no_metric [of lab "''https://down:6443''" "''default''" "''xxx''" initial]
    down
  have 2: "metrics (snd (exportVirtualMachineNamesAndStatuses lab ''https://down:6443'' ''xxx''
                           ''default'' initial))
             = metrics initial"
    by blast
  from failed_poll_writes_no_metric
      [of lab "''https://elsewhere''" "''default''" "''xxx''" initial 404]
    lab_elsewhere_fails [of "UnmarshalCount lab"]
    lab_elsewhere_fails [of "UnmarshalNamesAndStatuses lab"]
    lab_elsewhere_fails [of "UnmarshalMigrations lab"]
    lab_elsewhere_404
  have 3: "pollFails lab (virtualmachinesURL ''https://elsewhere'' ''default'') ''xxx''
        (requests initial) (UnmarshalCount lab)
   \<and> pollFails lab (migrationsURL ''https://elsewhere'') ''xxx'' (requests initial)
       (UnmarshalMigrations lab)
   \<and> answeredWith lab (migrationsURL ''https://elsewhere'') ''xxx'' (requests initial) 404
   \<and> fst (exportVirtualMachineCount lab ''https://elsewhere'' ''xxx'' ''default'' initial)
       = Return (Inl (Errorf ''unexpected status code: %d'' [404]))
   \<and> metrics (snd (exportVirtualMachineCount lab ''https://elsewhere'' ''xxx'' ''default'' initial))
       = metrics initial
   \<and> fst (exportVirtualMachineNamesAndStatuses lab ''https://elsewhere'' ''xxx'' ''default'' initial)
       = Return (Inl (Errorf ''unexpected status code: %d'' [404]))
   \<and> metrics (snd (exportVirtualMachineNamesAndStatuses lab ''https://elsewhere'' ''xxx''
                     ''default'' initial))
       = metrics initial
   \<and> fst (exportVirtualMachineMigrationTime lab ''https://elsewhere'' ''xxx'' initial)
       = Return (Inl (Errorf ''unexpected status code: %d'' [404]))
   \<and> metrics (snd (exportVirtualMachineMigrationTime lab ''https://elsewhere'' ''xxx'' initial))
       = metrics initial"
    by simp
  from 3 garbled 1 down 2 show ?thesis
    by (simp only: simp_thms)
qed

subsection \<open>The loop over migrations\<close>

lemma migrationVmBody_others:
  "vmCountMetric (migrationVmBody e ns vm st) = vmCountMetric st"
  "vmStatusMetric (migrationVmBody e ns vm st) = vmStatusMetric st"
  "failedMigrationsMetric (migrationVmBody e ns vm st) = failedMigrationsMetric st"
  by (simp_all add: migrationVmBody_def printf_def Let_def split: sum.splits)

















subsection \<open>Durations of migrations\<close>





lemma lab_parse:
  "timeParse RFC3339 ''2025-05-20T10:00:00Z'' = Inr \<lparr>instant = 63883332000000000000, offset = 0\<rparr>"
  "timeParse RFC3339 ''2025-05-20T10:17:23Z'' = Inr \<lparr>instant = 63883333043000000000, offset = 0\<rparr>"
  "timeParse RFC3339 ''2025-05-20T10:00:05Z'' = Inr \<lparr>instant = 63883332005000000000, offset = 0\<rparr>"
  "timeParse RFC3339 ''2025-05-20T12:00:00Z'' = Inr \<lparr>instant = 63883339200000000000, offset = 0\<rparr>"
  "timeParse RFC3339 ''0001-01-01T00:00:00Z'' = Inr \<lparr>instant = 0, offset = 0\<rparr>"
  "timeParse RFC3339 [] = Inl (LibError ''parsing time: cannot parse value as layout'')"
  by code_simp+









subsection \<open>Entries with an unparseable timestamp\<close>




subsection \<open>What holds between the states of the background loop\<close>

text \<open>
  A relation between states that is reflexive and transitive and holds across each of the
  three routines and across a sleep holds across any number of iterations of the loop,
  whether the loop panics on the way or not.
\<close>

lemma namespacesLoop_rel:
  assumes refl: "\<And>st. R st st"
    and trans: "\<And>a b c. R a b \<Longrightarrow> R b c \<Longrightarrow> R a c"
    and count: "\<And>ns st. R st (snd (exportVirtualMachineCount e s t ns st))"
    and names: "\<And>ns st. R st (snd (exportVirtualMachineNamesAndStatuses e s t ns st))"
  shows "R st (snd (namespacesLoop e s t nsl st))"
proof (induction nsl arbitrary: st)
  case Nil
  show ?case by (simp add: refl)
next
  case (Cons ns nsl)
  obtain r1 st1 where c: "exportVirtualMachineCount e s t ns st = (r1, st1)"
    by (cases "exportVirtualMachineCount e s t ns st")
  obtain r2 st2 where n: "exportVirtualMachineNamesAndStatuses e s t ns st1 = (r2, st2)"
    by (cases "exportVirtualMachineNamesAndStatuses e s t ns st1")
  have 1: "R st st1" using count [of st ns] c by simp
  have 2: "R st1 st2" using names [of st1 ns] n by simp
  have 3: "R st2 (snd (namespacesLoop e s t nsl st2))" by (rule Cons.IH)
  show ?case
  proof (cases r1)
    case (Panic p)
    with c 1 show ?thesis by simp
  next
    case r1: (Return v1)
    show ?thesis
    proof (cases r2)
      case (Panic p)
      with c n r1 trans [OF 1 2] show ?thesis by simp
    next
      case (Return v2)
      with c n r1 trans [OF trans [OF 1 2] 3] show ?thesis by simp
    qed
  qed
qed

lemma pollOnce_rel:
  assumes refl: "\<And>st. R st st"
    and trans: "\<And>a b c. R a b \<Longrightarrow> R b c \<Longrightarrow> R a c"
    and count: "\<And>ns st. R st (snd (exportVirtualMachineCount e s t ns st))"
    and names: "\<And>ns st. R st (snd (exportVirtualMachineNamesAndStatuses e s t ns st))"
    and migration: "\<And>st. R st (snd (exportVirtualMachineMigrationTime e s t st))"
    and sleep: "\<And>ev st. R st (enter ev st)"
  shows "R st (snd (pollOnce e s t nsl st))"
proof -
  obtain r1 st1 where a: "namespacesLoop e s t nsl st = (r1, st1)"
    by (cases "namespacesLoop e s t nsl st")
  obtain r2 st2 where b: "exportVirtualMachineMigrationTime e s t st1 = (r2, st2)"
    by (cases "exportVirtualMachineMigrationTime e s t st1")
  have 1: "R st st1"
    using namespacesLoop_rel [of R e s t st nsl, OF refl trans count names] a by simp
  have 2: "R st1 st2" using migration [of st1] b by simp
  have 3: "R st2 (enter (Sleep (sleepSeconds * Second)) st2)" by (rule sleep)
  show ?thesis
  proof (cases r1)
    case (Panic p)
    with a 1 show ?thesis by (simp add: pollOnce_def)
  next
    case r1: (Return v1)
    show ?thesis
    proof (cases r2)
      case (Panic p)
      with a b r1 trans [OF 1 2] show ?thesis by (simp add: pollOnce_def)
    next
      case (Return v2)
      with a b r1 trans [OF trans [OF 1 2] 3] show ?thesis by (simp add: pollOnce_def)
    qed
  qed
qed

lemma pollLoop_rel:
  assumes refl: "\<And>st. R st st"
    and trans: "\<And>a b c. R a b \<Longrightarrow> R b c \<Longrightarrow> R a c"
    and count: "\<And>ns st. R st (snd (exportVirtualMachineCount e s t ns st))"
    and names: "\<And>ns st. R st (snd (exportVirtualMachineNamesAndStatuses e s t ns st))"
    and migration: "\<And>st. R st (snd (exportVirtualMachineMigrationTime e s t st))"
    and sleep: "\<And>ev st. R st (enter ev st)"
  shows "R st (snd (pollLoop e s t nsl n st))"
proof (induction n arbitrary: st)
  case 0
  show ?case by (simp add: refl)
next
  case (Suc n)
  obtain r1 st1 where a: "pollOnce e s t nsl st = (r1, st1)"
    by (cases "pollOnce e s t nsl st")
  have 1: "R st st1"
    using pollOnce_rel [of R e s t st nsl, OF refl trans count names migration sleep] a by simp
  have 2: "R st1 (snd (pollLoop e s t nsl n st1))" by (rule Suc.IH)
  show ?case
  proof (cases r1)
    case (Panic p)
    with a 1 show ?thesis by simp
  next
    case (Return v1)
    with a trans [OF 1 2] show ?thesis by simp
  qed
qed

subsection \<open>What each routine leaves alone\<close>

lemma exportVirtualMachineCount_others:
  "vmStatusMetric (snd (exportVirtualMachineCount e s t ns st)) = vmStatusMetric st"
  "failedMigrationsMetric (snd (exportVirtualMachineCount e s t ns st)) = failedMigrationsMetric st"
  "migrationTimeMetric (snd (exportVirtualMachineCount e s t ns st)) = migrationTimeMetric st"
  by (simp_all add: exportVirtualMachineCount_def printf_def enter_def Let_def split: sum.splits)

lemma namesAndStatusesLoop_others:
  "vmCountMetric (snd (namesAndStatusesLoop ns vms m st)) = vmCountMetric st"
  "failedMigrationsMetric (snd (namesAndStatusesLoop ns vms m st)) = failedMigrationsMetric st"
  "migrationTimeMetric (snd (namesAndStatusesLoop ns vms m st)) = migrationTimeMetric st"
  by (induction vms arbitrary: m st) simp_all

lemma exportVirtualMachineNamesAndStatuses_others:
  "vmCountMetric (snd (exportVirtualMachineNamesAndStatuses e s t ns st)) = vmCountMetric st"
  "failedMigrationsMetric (snd (exportVirtualMachineNamesAndStatuses e s t ns st))
     = failedMigrationsMetric st"
  "migrationTimeMetric (snd (exportVirtualMachineNamesAndStatuses e s t ns st))
     = migrationTimeMetric st"
  by (simp_all add: exportVirtualMachineNamesAndStatuses_def printf_def enter_def Let_def
        namesAndStatusesLoop_others split_beta split: sum.splits)

lemma migrationVmsLoop_others:
  "vmCountMetric (migrationVmsLoop e ns vms st) = vmCountMetric st"
  "vmStatusMetric (migrationVmsLoop e ns vms st) = vmStatusMetric st"
  "failedMigrationsMetric (migrationVmsLoop e ns vms st) = failedMigrationsMetric st"
  by (induction vms arbitrary: st) (simp_all add: migrationVmBody_others)

lemma migrationsLoop_others:
  "vmCountMetric (migrationsLoop e items st) = vmCountMetric st"
  "vmStatusMetric (migrationsLoop e items st) = vmStatusMetric st"
  "failedMigrationsMetric (migrationsLoop e items st) = failedMigrationsMetric st"
  by (induction items arbitrary: st) (simp_all add: migrationVmsLoop_others)

lemma exportVirtualMachineMigrationTime_others:
  "vmCountMetric (snd (exportVirtualMachineMigrationTime e s t st)) = vmCountMetric st"
  "vmStatusMetric (snd (exportVirtualMachineMigrationTime e s t st)) = vmStatusMetric st"
  "failedMigrationsMetric (snd (exportVirtualMachineMigrationTime e s t st))
     = failedMigrationsMetric st"
  by (simp_all add: exportVirtualMachineMigrationTime_def printf_def enter_def Let_def
        migrationsLoop_others split: sum.splits)

lemma pollLoop_failedMigrations:
  "failedMigrationsMetric (snd (pollLoop e s t nsl n st)) = failedMigrationsMetric st"
  by (rule pollLoop_rel [of "\<lambda>a b. failedMigrationsMetric b = failedMigrationsMetric a"])
     (simp_all add: exportVirtualMachineCount_others exportVirtualMachineNamesAndStatuses_others
        exportVirtualMachineMigrationTime_others enter_def)

lemma startCmd_background_registered:
  assumes "background (startCmd e token serverURL namespaces) = Some nsl"
  shows "Register e ''failedMigrationsMetric'' = Registered
       \<or> Register e ''failedMigrationsMetric'' = AlreadyRegisteredError"
  using assms
  by (cases "Register e ''failedMigrationsMetric''")
     (auto simp: startCmd_def Let_def split: if_splits register_result.splits option.splits)

subsection \<open>One poll of the cluster\<close>

lemma lab_parse_rocky:
  "timeParse RFC3339 ''2025-05-20T11:00:00Z'' = Inr \<lparr>instant = 63883335600000000000, offset = 0\<rparr>"
  "timeParse RFC3339 ''2025-05-20T11:16:39Z'' = Inr \<lparr>instant = 63883336599000000000, offset = 0\<rparr>"
  by code_simp+

lemmas lab_eval =
  exportVirtualMachineCount_def exportVirtualMachineNamesAndStatuses_def
  exportVirtualMachineMigrationTime_def pollOnce_def migrationVmBody_def
  labNewRequest_def labDo_def labUnmarshalCount_def labUnmarshalNamesAndStatuses_def
  labUnmarshalMigrations_def labMigrations_def Header_Set_def virtualmachinesURL_def
  migrationsURL_def labServer_def printf_def enter_def initial_def Let_def
  lab_parse lab_parse_rocky Sub_def Seconds_eq maxDuration_def minDuration_def numeral_nat

lemma lab_first_poll:
  "fst (pollLoop lab labServer ''xxx'' [''migrationlab'', ''default''] 1 initial) = Return ()"
  "vmCountMetric (snd (pollLoop lab labServer ''xxx'' [''migrationlab'', ''default''] 1 initial))
     [''default''] = Some 0"
  "vmCountMetric (snd (pollLoop lab labServer ''xxx'' [''migrationlab'', ''default''] 1 initial))
     [''migrationlab''] = Some 1"
  "vmStatusMetric (snd (pollLoop lab labServer ''xxx'' [''migrationlab'', ''default''] 1 initial))
     [''migrationlab'', ''rocky9-esxi'', ''Running''] = Some 1"
  "migrationTimeMetric (snd (pollLoop lab labServer ''xxx'' [''migrationlab'', ''default''] 1 initial))
     [[], ''centos-stream10-apricot-slug-73''] = Some 1043"
  "migrationTimeMetric (snd (pollLoop lab labServer ''xxx'' [''migrationlab'', ''default''] 1 initial))
     [[], ''rocky9-esxi''] = Some 999"
  "migrationTimeMetric (snd (pollLoop lab labServer ''xxx'' [''migrationlab'', ''default''] 1 initial))
     [[], ''fedora-pending''] = None"
  by (simp_all add: lab_eval)

lemma lab_startCmd:
  "startCmd lab ''xxx'' labServer ''migrationlab,default''
     = \<lparr>printed = banner labServer [''migrationlab'', ''default'']
                     @ [Println ''Prometheus exporter initialized successfully.'',
                        Println ''Starting Prometheus exporter on :8080''],
        exitCode = None, background = Some [''migrationlab'', ''default'']\<rparr>"
  by (simp add: startCmd_def labServer_def Let_def)

subsection \<open>The counter of failed migrations\<close>

text \<open>
  Claim C9. The counter \<^verbatim>\<open>failed_migrations_total\<close> is offered to the registry at
  startup (the background loop is started only when the registry took it or held it
  already), and nothing writes it afterwards: each of the three routines, and any number
  of iterations of the background loop, leave every series of it as it was, so it has no
  series however long the process runs.
\<close>

theorem failedMigrations_never_modified:
  "failedMigrationsMetric (snd (exportVirtualMachineCount e serverURL token namespace st))
     = failedMigrationsMetric st
   \<and> failedMigrationsMetric (snd (exportVirtualMachineNamesAndStatuses e serverURL token namespace st))
     = failedMigrationsMetric st
   \<and> failedMigrationsMetric (snd (exportVirtualMachineMigrationTime e serverURL token st))
     = failedMigrationsMetric st
   \<and> failedMigrationsMetric (snd (pollLoop e serverURL token namespaceList n st))
     = failedMigrationsMetric st
   \<and> (snd (run e token serverURL namespaces n) = Some (r, st') \<longrightarrow>
        (Register e ''failedMigrationsMetric'' = Registered
         \<or> Register e ''failedMigrationsMetric'' = AlreadyRegisteredError)
        \<and> failedMigrationsMetric st' = Map.empty)"
proof -
  have "(Register e ''failedMigrationsMetric'' = Registered
         \<or> Register e ''failedMigrationsMetric'' = AlreadyRegisteredError)
        \<and> failedMigrationsMetric st' = Map.empty"
    if "snd (run e token serverURL namespaces n) = Some (r, st')"
  proof -
    from that obtain nsl where
      b: "background (startCmd e token serverURL namespaces) = Some nsl"
      and p: "pollLoop e serverURL token nsl n initial = (r, st')"
      by (auto simp: run_def Let_def split: option.splits)
    from p have "st' = snd (pollLoop e serverURL token nsl n initial)"
      by simp
    then have "failedMigrationsMetric st' = failedMigrationsMetric initial"
      by (simp only: pollLoop_failedMigrations)
    with startCmd_background_registered [OF b] show ?thesis
      by (simp add: initial_def)
  qed
  then show ?thesis
    by (simp add: exportVirtualMachineCount_others exportVirtualMachineNamesAndStatuses_others
          exportVirtualMachineMigrationTime_others pollLoop_failedMigrations)
qed

theorem failedMigrations_never_modified_witness:
  "snd (run lab ''xxx'' labServer ''migrationlab,default'' 1)
     = Some (Return (),
             snd (pollLoop lab labServer ''xxx'' [''migrationlab'', ''default''] 1 initial))
   \<and> Register lab ''failedMigrationsMetric'' = Registered
   \<and> failedMigrationsMetric
         (snd (pollLoop lab labServer ''xxx'' [''migrationlab'', ''default''] 1 initial))
       = Map.empty"
proof -
  have "pollLoop lab labServer ''xxx'' [''migrationlab'', ''default''] 1 initial
          = (Return (), snd (pollLoop lab labServer ''xxx'' [''migrationlab'', ''default''] 1 initial))"
    using lab_first_poll(1) by (simp add: prod_eq_iff)
  then have run: "snd (run lab ''xxx'' labServer ''migrationlab,default'' 1)
     = Some (Return (),
             snd (pollLoop lab labServer ''xxx'' [''migrationlab'', ''default''] 1 initial))"
    by (simp only: run_def lab_startCmd Let_def startup.simps option.case snd_conv)
  have reg: "Register lab ''failedMigrationsMetric'' = Registered"
    by simp
  from run failedMigrations_never_modified
      [where e = lab and serverURL = labServer and token = "''xxx''"
         and namespaces = "''migrationlab,default''" and n = 1 and r = "Return ()"
         and st' = "snd (pollLoop lab labServer ''xxx'' [''migrationlab'', ''default''] 1 initial)"]
  have "failedMigrationsMetric
         (snd (pollLoop lab labServer ''xxx'' [''migrationlab'', ''default''] 1 initial))
       = Map.empty"
    by blast
  with run reg show ?thesis
    by blast
qed

subsection \<open>The status gauge\<close>







lemma vmStatusMetric_bookkeeping [simp]:
  "vmStatusMetric (printf f a st) = vmStatusMetric st"
  "vmStatusMetric (enter ev st) = vmStatusMetric st"
  by (simp_all add: printf_def enter_def)








subsection \<open>The order of the calls in the background loop\<close>

lemma trace_bookkeeping [simp]:
  "trace (printf f a st) = trace st"
  "trace (enter ev st) = trace st @ [ev]"
  by (simp_all add: printf_def enter_def)

lemma exportVirtualMachineCount_trace:
  "trace (snd (exportVirtualMachineCount e s t ns st)) = trace st @ [CountCall ns]"
  by (simp add: exportVirtualMachineCount_def Let_def split: sum.splits)

lemma namesAndStatusesLoop_trace:
  "trace (snd (namesAndStatusesLoop ns vms m st)) = trace st"
  by (induction vms arbitrary: m st) simp_all

lemma exportVirtualMachineNamesAndStatuses_trace:
  "trace (snd (exportVirtualMachineNamesAndStatuses e s t ns st))
     = trace st @ [NamesAndStatusesCall ns]"
  by (simp add: exportVirtualMachineNamesAndStatuses_def Let_def split_beta
        namesAndStatusesLoop_trace split: sum.splits)

lemma migrationVmsLoop_trace:
  "trace (migrationVmsLoop e ns vms st) = trace st"
  by (induction vms arbitrary: st) (simp_all add: migrationVmBody_def Let_def split: sum.splits)

lemma migrationsLoop_trace:
  "trace (migrationsLoop e items st) = trace st"
  by (induction items arbitrary: st) (simp_all add: migrationVmsLoop_trace)

lemma exportVirtualMachineMigrationTime_trace:
  "trace (snd (exportVirtualMachineMigrationTime e s t st)) = trace st @ [MigrationTimeCall]"
  by (simp add: exportVirtualMachineMigrationTime_def Let_def migrationsLoop_trace
        split: sum.splits)

text \<open>A routine panics only when its request cannot be built.\<close>

lemma exportVirtualMachineCount_returns:
  "\<not> isl (NewRequest e ''GET'' (virtualmachinesURL s ns)) \<Longrightarrow>
     \<exists>r. fst (exportVirtualMachineCount e s t ns st) = Return r"
  by (auto simp: exportVirtualMachineCount_def Let_def isl_def split: sum.splits)

lemma exportVirtualMachineNamesAndStatuses_returns:
  "\<not> isl (NewRequest e ''GET'' (virtualmachinesURL s ns)) \<Longrightarrow>
     \<exists>r. fst (exportVirtualMachineNamesAndStatuses e s t ns st) = Return r"
  by (auto simp: exportVirtualMachineNamesAndStatuses_def Let_def split_beta isl_def
           split: sum.splits)

lemma exportVirtualMachineMigrationTime_returns:
  "\<not> isl (NewRequest e ''GET'' (migrationsURL s)) \<Longrightarrow>
     \<exists>r. fst (exportVirtualMachineMigrationTime e s t st) = Return r"
  by (auto simp: exportVirtualMachineMigrationTime_def Let_def isl_def split: sum.splits)

lemma namespacesLoop_runs:
  assumes "list_all (\<lambda>ns. \<not> isl (NewRequest e ''GET'' (virtualmachinesURL s ns))) nsl"
  shows "fst (namespacesLoop e s t nsl st) = Return ()
       \<and> trace (snd (namespacesLoop e s t nsl st))
           = trace st @ concat (map (\<lambda>ns. [CountCall ns, NamesAndStatusesCall ns]) nsl)"
  using assms
proof (induction nsl arbitrary: st)
  case Nil
  show ?case by simp
next
  case (Cons ns nsl)
  then have ok: "\<not> isl (NewRequest e ''GET'' (virtualmachinesURL s ns))"
    and rest: "list_all (\<lambda>ns. \<not> isl (NewRequest e ''GET'' (virtualmachinesURL s ns))) nsl"
    by simp_all
  obtain r1 st1 where c: "exportVirtualMachineCount e s t ns st = (r1, st1)"
    by (cases "exportVirtualMachineCount e s t ns st")
  obtain r2 st2 where n: "exportVirtualMachineNamesAndStatuses e s t ns st1 = (r2, st2)"
    by (cases "exportVirtualMachineNamesAndStatuses e s t ns st1")
  from exportVirtualMachineCount_returns [OF ok, of t st] c obtain v1 where r1: "r1 = Return v1"
    by auto
  from exportVirtualMachineNamesAndStatuses_returns [OF ok, of t st1] n
  obtain v2 where r2: "r2 = Return v2"
    by auto
  have t1: "trace st1 = trace st @ [CountCall ns]"
    using exportVirtualMachineCount_trace [of e s t ns st] c by simp
  have t2: "trace st2 = trace st1 @ [NamesAndStatusesCall ns]"
    using exportVirtualMachineNamesAndStatuses_trace [of e s t ns st1] n by simp
  from Cons.IH [OF rest, of st2] c n r1 r2 t1 t2 show ?case
    by simp
qed

lemma pollOnce_runs:
  assumes "requestsBuilt e s nsl"
  shows "fst (pollOnce e s t nsl st) = Return ()
       \<and> trace (snd (pollOnce e s t nsl st)) = trace st @ cycleEvents nsl"
proof -
  from assms
  have vms: "list_all (\<lambda>ns. \<not> isl (NewRequest e ''GET'' (virtualmachinesURL s ns))) nsl"
    and mig: "\<not> isl (NewRequest e ''GET'' (migrationsURL s))"
    by (simp_all add: requestsBuilt_def)
  obtain r1 st1 where a: "namespacesLoop e s t nsl st = (r1, st1)"
    by (cases "namespacesLoop e s t nsl st")
  obtain r2 st2 where b: "exportVirtualMachineMigrationTime e s t st1 = (r2, st2)"
    by (cases "exportVirtualMachineMigrationTime e s t st1")
  from namespacesLoop_runs [OF vms, of t st] a
  have r1: "r1 = Return ()"
    and t1: "trace st1 = trace st @ concat (map (\<lambda>ns. [CountCall ns, NamesAndStatusesCall ns]) nsl)"
    by simp_all
  from exportVirtualMachineMigrationTime_returns [OF mig, of t st1] b
  obtain v2 where r2: "r2 = Return v2"
    by auto
  have t2: "trace st2 = trace st1 @ [MigrationTimeCall]"
    using exportVirtualMachineMigrationTime_trace [of e s t st1] b by simp
  from a b r1 r2 t1 t2 show ?thesis
    by (simp add: pollOnce_def cycleEvents_def)
qed

text \<open>
  As long as every request can be built, the loop never stops and every iteration makes
  the calls in the same order: for each namespace of the list, in the order of the list,
  the count and then the names and statuses; after the last namespace the migration
  times, once; then the sleep of \<open>sleepSeconds\<close> seconds.
\<close>

lemma pollLoop_runs:
  assumes "requestsBuilt e s nsl"
  shows "fst (pollLoop e s t nsl n st) = Return ()
       \<and> trace (snd (pollLoop e s t nsl n st)) = trace st @ concat (replicate n (cycleEvents nsl))"
proof (induction n arbitrary: st)
  case 0
  show ?case by simp
next
  case (Suc n)
  obtain r1 st1 where a: "pollOnce e s t nsl st = (r1, st1)"
    by (cases "pollOnce e s t nsl st")
  from pollOnce_runs [OF assms, of t st] a
  have "r1 = Return ()" and "trace st1 = trace st @ cycleEvents nsl"
    by simp_all
  with Suc.IH [of st1] a show ?case
    by simp
qed

text \<open>
  When a request cannot be built, the first iteration panics: the loop as a whole runs
  through its iterations exactly when every request can be built.
\<close>

lemma exportVirtualMachineCount_panics:
  "isl (NewRequest e ''GET'' (virtualmachinesURL s ns)) \<Longrightarrow>
     fst (exportVirtualMachineCount e s t ns st) = Panic nilDereference"
  by (auto simp: exportVirtualMachineCount_def Let_def isl_def)

lemma exportVirtualMachineMigrationTime_panics:
  "isl (NewRequest e ''GET'' (migrationsURL s)) \<Longrightarrow>
     fst (exportVirtualMachineMigrationTime e s t st) = Panic nilDereference"
  by (auto simp: exportVirtualMachineMigrationTime_def Let_def isl_def)

lemma namespacesLoop_panics:
  assumes "\<not> list_all (\<lambda>ns. \<not> isl (NewRequest e ''GET'' (virtualmachinesURL s ns))) nsl"
  shows "fst (namespacesLoop e s t nsl st) = Panic nilDereference"
  using assms
proof (induction nsl arbitrary: st)
  case Nil
  then show ?case by simp
next
  case (Cons ns nsl)
  obtain r1 st1 where c: "exportVirtualMachineCount e s t ns st = (r1, st1)"
    by (cases "exportVirtualMachineCount e s t ns st")
  obtain r2 st2 where n: "exportVirtualMachineNamesAndStatuses e s t ns st1 = (r2, st2)"
    by (cases "exportVirtualMachineNamesAndStatuses e s t ns st1")
  show ?case
  proof (cases "isl (NewRequest e ''GET'' (virtualmachinesURL s ns))")
    case True
    from exportVirtualMachineCount_panics [OF True, of t st] c show ?thesis
      by simp
  next
    case False
    from exportVirtualMachineCount_returns [OF False, of t st] c obtain v1 where "r1 = Return v1"
      by auto
    moreover from exportVirtualMachineNamesAndStatuses_returns [OF False, of t st1] n
    obtain v2 where "r2 = Return v2"
      by auto
    moreover from Cons.prems False
    have "\<not> list_all (\<lambda>ns. \<not> isl (NewRequest e ''GET'' (virtualmachinesURL s ns))) nsl"
      by simp
    then have "fst (namespacesLoop e s t nsl st2) = Panic nilDereference"
      by (rule Cons.IH)
    ultimately show ?thesis
      using c n by simp
  qed
qed

lemma pollOnce_panics:
  assumes "\<not> requestsBuilt e s nsl"
  shows "fst (pollOnce e s t nsl st) = Panic nilDereference"
proof (cases "list_all (\<lambda>ns. \<not> isl (NewRequest e ''GET'' (virtualmachinesURL s ns))) nsl")
  case True
  with assms have m: "isl (NewRequest e ''GET'' (migrationsURL s))"
    by (simp add: requestsBuilt_def)
  obtain r1 st1 where a: "namespacesLoop e s t nsl st = (r1, st1)"
    by (cases "namespacesLoop e s t nsl st")
  with namespacesLoop_runs [OF True, of t st] have "r1 = Return ()"
    by simp
  moreover obtain r2 st2 where b: "exportVirtualMachineMigrationTime e s t st1 = (r2, st2)"
    by (cases "exportVirtualMachineMigrationTime e s t st1")
  moreover from exportVirtualMachineMigrationTime_panics [OF m, of t st1] b
  have "r2 = Panic nilDereference"
    by simp
  ultimately show ?thesis
    using a by (simp add: pollOnce_def)
next
  case False
  obtain r1 st1 where a: "namespacesLoop e s t nsl st = (r1, st1)"
    by (cases "namespacesLoop e s t nsl st")
  with namespacesLoop_panics [OF False, of t st] have "r1 = Panic nilDereference"
    by simp
  with a show ?thesis
    by (simp add: pollOnce_def)
qed

lemma pollLoop_runs_iff:
  "fst (pollLoop e s t nsl (Suc n) st) = Return () \<longleftrightarrow> requestsBuilt e s nsl"
proof
  assume r: "fst (pollLoop e s t nsl (Suc n) st) = Return ()"
  show "requestsBuilt e s nsl"
  proof (rule ccontr)
    assume "\<not> requestsBuilt e s nsl"
    then have "fst (pollOnce e s t nsl st) = Panic nilDereference"
      by (rule pollOnce_panics)
    then have "fst (pollLoop e s t nsl (Suc n) st) = Panic nilDereference"
      by (cases "pollOnce e s t nsl st") simp
    with r show False
      by simp
  qed
next
  assume "requestsBuilt e s nsl"
  then show "fst (pollLoop e s t nsl (Suc n) st) = Return ()"
    using pollLoop_runs by blast
qed

text \<open>
  Claim C6 fails where a request cannot be built. \<^verbatim>\<open>http.NewRequest\<close> then returns a
  \<^verbatim>\<open>nil\<close> request, and each routine prints \<^verbatim>\<open>req.URL\<close> before it looks at the error: the
  goroutine panics and the process ends. Started with \<^verbatim>\<open>--server-url :\<close>, the loop
  panics in the count of the first namespace of its first iteration; the names and
  statuses and the migration times are never polled and the loop does not sleep.
\<close>

theorem pollLoop_panics:
  "map_option fst (snd (run lab ''xxx'' '':'' ''default'' 3)) = Some (Panic nilDereference)
   \<and> map_option (trace \<circ> snd) (snd (run lab ''xxx'' '':'' ''default'' 3))
       = Some [CountCall ''default'']
   \<and> cycleEvents [''default'']
       = [CountCall ''default'', NamesAndStatusesCall ''default'', MigrationTimeCall,
          Sleep 15000000000]"
  by (simp add: run_def startCmd_def Let_def lab_eval cycleEvents_def sleepSeconds_def Second_def)

subsection \<open>The token and the printed output\<close>

lemma exportVirtualMachineCount_token:
  assumes "tokenBlind e t1 t2"
  shows "exportVirtualMachineCount e s t1 ns st = exportVirtualMachineCount e s t2 ns st"
proof -
  have "Do e n (Header_Set ''Authorization'' (''Bearer '' @ t1) req)
          = Do e n (Header_Set ''Authorization'' (''Bearer '' @ t2) req)" for n req
    using assms by (simp add: tokenBlind_def)
  then show ?thesis
    by (simp add: exportVirtualMachineCount_def Let_def cong: sum.case_cong)
qed

lemma exportVirtualMachineNamesAndStatuses_token:
  assumes "tokenBlind e t1 t2"
  shows "exportVirtualMachineNamesAndStatuses e s t1 ns st
           = exportVirtualMachineNamesAndStatuses e s t2 ns st"
proof -
  have "Do e n (Header_Set ''Authorization'' (''Bearer '' @ t1) req)
          = Do e n (Header_Set ''Authorization'' (''Bearer '' @ t2) req)" for n req
    using assms by (simp add: tokenBlind_def)
  then show ?thesis
    by (simp add: exportVirtualMachineNamesAndStatuses_def Let_def cong: sum.case_cong)
qed

lemma exportVirtualMachineMigrationTime_token:
  assumes "tokenBlind e t1 t2"
  shows "exportVirtualMachineMigrationTime e s t1 st = exportVirtualMachineMigrationTime e s t2 st"
proof -
  have "Do e n (Header_Set ''Authorization'' (''Bearer '' @ t1) req)
          = Do e n (Header_Set ''Authorization'' (''Bearer '' @ t2) req)" for n req
    using assms by (simp add: tokenBlind_def)
  then show ?thesis
    by (simp add: exportVirtualMachineMigrationTime_def Let_def cong: sum.case_cong)
qed

lemma namespacesLoop_token:
  assumes "tokenBlind e t1 t2"
  shows "namespacesLoop e s t1 nsl st = namespacesLoop e s t2 nsl st"
  by (induction nsl arbitrary: st)
     (simp_all add: exportVirtualMachineCount_token [OF assms]
        exportVirtualMachineNamesAndStatuses_token [OF assms] split: prod.splits result.splits)

lemma pollOnce_token:
  assumes "tokenBlind e t1 t2"
  shows "pollOnce e s t1 nsl st = pollOnce e s t2 nsl st"
  by (simp add: pollOnce_def namespacesLoop_token [OF assms]
        exportVirtualMachineMigrationTime_token [OF assms] split: prod.splits result.splits)

lemma pollLoop_token:
  assumes "tokenBlind e t1 t2"
  shows "pollLoop e s t1 nsl n st = pollLoop e s t2 nsl n st"
  by (induction n arbitrary: st)
     (simp_all add: pollOnce_token [OF assms] split: prod.splits result.splits)

lemma startCmd_token:
  "(t1 = []) = (t2 = []) \<Longrightarrow> startCmd e t1 s nss = startCmd e t2 s nss"
  by (cases "t1 = []") (simp_all add: startCmd_def)

lemma startCmd_banner:
  assumes "token \<noteq> []" "serverURL \<noteq> []" "namespaces \<noteq> []"
  shows "Printf ''start called with --token=*** --server-url=%s --namespaces=%v\<newline>''
           [ArgStr serverURL, ArgStrs (Split namespaces CHR '','')]
         \<in> set (printed (startCmd e token serverURL namespaces))"
  using assms
  by (simp add: startCmd_def banner_def Let_def
        split: register_result.splits option.splits)

lemma lab_tokenBlind: "tokenBlind lab t1 t2"
  by (simp add: tokenBlind_def labDo_def Header_Set_def)

text \<open>
  Claim C8, amended. Take two runs that differ in the token only, both tokens non-empty
  (or both empty), against an upstream that answers alike for the two. Then the two runs
  print the same: what the main goroutine prints and how it ends, and the output, the
  metrics and the calls of the background loop after any number of iterations, are equal.
  When the three flags are given, the banner shows the token as \<^verbatim>\<open>***\<close>. The output
  is what the program prints with \<^verbatim>\<open>fmt\<close>.
\<close>

theorem token_not_printed:
  assumes "(t1 = []) = (t2 = [])"
    and "tokenBlind e t1 t2"
  shows "run e t1 serverURL namespaces n = run e t2 serverURL namespaces n
       \<and> (t1 \<noteq> [] \<and> serverURL \<noteq> [] \<and> namespaces \<noteq> [] \<longrightarrow>
            Printf ''start called with --token=*** --server-url=%s --namespaces=%v\<newline>''
              [ArgStr serverURL, ArgStrs (Split namespaces CHR '','')]
            \<in> set (printed (fst (run e t1 serverURL namespaces n))))"
proof -
  have "run e t1 serverURL namespaces n = run e t2 serverURL namespaces n"
    by (simp add: run_def Let_def startCmd_token [OF assms(1)] pollLoop_token [OF assms(2)]
          split: option.splits)
  moreover have "fst (run e t1 serverURL namespaces n) = startCmd e t1 serverURL namespaces"
    by (simp add: run_def Let_def)
  ultimately show ?thesis
    by (simp add: startCmd_banner)
qed

theorem token_not_printed_witness:
  "(''xxx'' = []) = (''sha256~secret'' = [])
   \<and> tokenBlind lab ''xxx'' ''sha256~secret''
   \<and> run lab ''xxx'' labServer ''migrationlab,default'' 2
       = run lab ''sha256~secret'' labServer ''migrationlab,default'' 2
   \<and> Printf ''start called with --token=*** --server-url=%s --namespaces=%v\<newline>''
         [ArgStr labServer, ArgStrs [''migrationlab'', ''default'']]
       \<in> set (printed (fst (run lab ''xxx'' labServer ''migrationlab,default'' 2)))"
proof -
  have a: "(''xxx'' = []) = (''sha256~secret'' = [])"
    by simp
  have b: "tokenBlind lab ''xxx'' ''sha256~secret''"
    by (rule lab_tokenBlind)
  have c: "Split ''migrationlab,default'' CHR '','' = [''migrationlab'', ''default'']"
    by simp
  have d: "''xxx'' \<noteq> [] \<and> labServer \<noteq> [] \<and> ''migrationlab,default'' \<noteq> []"
    by (simp add: labServer_def)
  from token_not_printed [OF a b, of labServer "''migrationlab,default''" 2] d
  have "run lab ''xxx'' labServer ''migrationlab,default'' 2
       = run lab ''sha256~secret'' labServer ''migrationlab,default'' 2"
    and "Printf ''start called with --token=*** --server-url=%s --namespaces=%v\<newline>''
         [ArgStr labServer, ArgStrs (Split ''migrationlab,default'' CHR '','')]
       \<in> set (printed (fst (run lab ''xxx'' labServer ''migrationlab,default'' 2)))"
    by blast+
  with a b show ?thesis
    unfolding c by blast
qed

text \<open>
  Claim C8 as it was stated, for any two token values, fails when one of them is empty:
  the run without a token prints the error and the usage and exits, the run with a token
  prints the banner.
\<close>

theorem token_not_printed_counterexample:
  "tokenBlind lab [] ''xxx''
   \<and> printed (fst (run lab [] labServer ''default'' 0))
       = [Println ''Error: --token, --server-url, and --namespaces are required parameters'',
          Usage]
   \<and> printed (fst (run lab ''xxx'' labServer ''default'' 0))
       = banner labServer [''default'']
         @ [Println ''Prometheus exporter initialized successfully.'',
            Println ''Starting Prometheus exporter on :8080'']
   \<and> run lab [] labServer ''default'' 0 \<noteq> run lab ''xxx'' labServer ''default'' 0"
proof -
  have a: "printed (fst (run lab [] labServer ''default'' 0))
       = [Println ''Error: --token, --server-url, and --namespaces are required parameters'',
          Usage]"
    by (simp add: run_def startCmd_def)
  have b: "printed (fst (run lab ''xxx'' labServer ''default'' 0))
       = banner labServer [''default'']
         @ [Println ''Prometheus exporter initialized successfully.'',
            Println ''Starting Prometheus exporter on :8080'']"
    by (simp add: run_def startCmd_def labServer_def Let_def)
  have "printed (fst (run lab [] labServer ''default'' 0))
          \<noteq> printed (fst (run lab ''xxx'' labServer ''default'' 0))"
    unfolding a b by (simp add: banner_def)
  then have "run lab [] labServer ''default'' 0 \<noteq> run lab ''xxx'' labServer ''default'' 0"
    by auto
  with a b lab_tokenBlind show ?thesis
    by blast
qed

subsection \<open>Registration at startup\<close>











end
